theory Spec2Isabelle
  imports Complex_Main
begin

section \<open>The albums service of rest-tutorial (main.go)\<close>

subsection \<open>Data model\<close>

text \<open>
  \<^verbatim>\<open>type album struct { ID string; Title string; Artist string; Price float64 }\<close>

  The program copies prices and compares them with the schema bound 0, and does no
  arithmetic on them. A price is modelled by the real number it denotes (a JSON number
  is never NaN or infinite).
\<close>

record album =
  ID :: string
  Title :: string
  Artist :: string
  Price :: real

text \<open>The package variable \<^verbatim>\<open>albums\<close>, as it is when the process starts.\<close>

definition albums_seed :: "album list" where
  "albums_seed =
    [\<lparr>ID = ''1'', Title = ''Blue Train'', Artist = ''John Coltrane'', Price = 56.99\<rparr>,
     \<lparr>ID = ''2'', Title = ''Jeru'', Artist = ''Gerry Mulligan'', Price = 17.99\<rparr>,
     \<lparr>ID = ''3'', Title = ''Sarah Vaughan and Clifford Brown'', Artist = ''Sarah Vaughan'',
      Price = 39.99\<rparr>]"

text \<open>
  The status codes of \<^verbatim>\<open>swaggest/usecase/status\<close> that the service can answer with:
  \<^verbatim>\<open>status.AlreadyExists\<close> and \<^verbatim>\<open>status.NotFound\<close> are returned by the interactors,
  \<^verbatim>\<open>status.InvalidArgument\<close> by the request validation of the framework.
\<close>

datatype status = InvalidArgument | NotFound | AlreadyExists

subsection \<open>Interactors\<close>

text \<open>
  Every interactor reads or writes the package variable \<^verbatim>\<open>albums\<close>: it takes the
  catalog as an argument and returns the catalog it leaves behind beside its result, an
  error status (\<open>Inl\<close>) or the value written to \<^verbatim>\<open>*out\<close> (\<open>Inr\<close>).
\<close>

text \<open>\<^verbatim>\<open>getAlbums\<close>: \<^verbatim>\<open>*out = albums; return nil\<close>.\<close>

definition getAlbums :: "album list \<Rightarrow> (status + album list) \<times> album list" where
  "getAlbums albums = (Inr albums, albums)"

text \<open>
  The loop of \<^verbatim>\<open>postAlbums\<close>,
  \<^verbatim>\<open>for _, a := range albums { if a.ID == in.ID { return status.AlreadyExists } }\<close>:
  \<open>Some\<close> is the early return, \<open>None\<close> is falling out of the loop.
\<close>

fun postAlbums_range :: "album list \<Rightarrow> album \<Rightarrow> status option" where
  "postAlbums_range [] inp = None"
| "postAlbums_range (a # as) inp =
     (if ID a = ID inp then Some AlreadyExists else postAlbums_range as inp)"

text \<open>
  \<^verbatim>\<open>postAlbums\<close>: after the loop, \<^verbatim>\<open>albums = append(albums, in); *out = in; return nil\<close>.
\<close>

definition postAlbums :: "album \<Rightarrow> album list \<Rightarrow> (status + album) \<times> album list" where
  "postAlbums inp albums =
     (case postAlbums_range albums inp of
        Some e \<Rightarrow> (Inl e, albums)
      | None \<Rightarrow> (Inr inp, albums @ [inp]))"

text \<open>
  The loop of \<^verbatim>\<open>getAlbumByID\<close>,
  \<^verbatim>\<open>for _, album := range albums { if album.ID == in.ID { *out = album; return nil } }\<close>:
  \<open>Some\<close> is the early return with the album written to \<^verbatim>\<open>*out\<close>.
\<close>

fun getAlbumByID_range :: "album list \<Rightarrow> string \<Rightarrow> album option" where
  "getAlbumByID_range [] i = None"
| "getAlbumByID_range (a # as) i =
     (if ID a = i then Some a else getAlbumByID_range as i)"

text \<open>
  \<^verbatim>\<open>getAlbumByID\<close>: after the loop,
  \<^verbatim>\<open>return status.Wrap(errors.New("album not found"), status.NotFound)\<close>.
\<close>

definition getAlbumByID :: "string \<Rightarrow> album list \<Rightarrow> (status + album) \<times> album list" where
  "getAlbumByID i albums =
     (case getAlbumByID_range albums i of
        Some a \<Rightarrow> (Inr a, albums)
      | None \<Rightarrow> (Inl NotFound, albums))"

subsection \<open>Request validation from the field tags\<close>

text \<open>
  The validation keywords a field of \<^verbatim>\<open>album\<close> carries in its struct tag. The web
  service of \<^verbatim>\<open>swaggest/rest\<close> turns them into the JSON Schema of the request body (the
  schema printed in the README's \<^verbatim>\<open>openapi.json\<close>) and checks every request body
  against it before the interactor runs.
\<close>

record field_tags =
  required :: bool
  minLength :: "nat option"
  minimum :: "real option"

text \<open>
  The tags of main.go, field by field:
  \<^verbatim>\<open>ID     string  `json:"id" required:"true" minLength:"1" ...`\<close>
  \<^verbatim>\<open>Title  string  `json:"title" required:"true" ...`\<close>
  \<^verbatim>\<open>Artist string  `json:"artist,omitempty" ...`\<close>
  \<^verbatim>\<open>Price  float64 `json:"price" minimum:"0" ...`\<close>
\<close>

definition ID_tags :: field_tags where
  "ID_tags = \<lparr>required = True, minLength = Some 1, minimum = None\<rparr>"

definition Title_tags :: field_tags where
  "Title_tags = \<lparr>required = True, minLength = None, minimum = None\<rparr>"

definition Artist_tags :: field_tags where
  "Artist_tags = \<lparr>required = False, minLength = None, minimum = None\<rparr>"

definition Price_tags :: field_tags where
  "Price_tags = \<lparr>required = False, minLength = None, minimum = Some 0\<rparr>"

text \<open>
  The JSON object of a create request: each property of the album schema is absent
  (\<open>None\<close>) or present with a value of the property's JSON type.
\<close>

record album_body =
  body_id :: "string option"
  body_title :: "string option"
  body_artist :: "string option"
  body_price :: "real option"

text \<open>
  The check itself is code of the library, not of main.go: what main.go decides is which
  keywords each field carries. The keywords have their JSON Schema meaning on one
  property: \<^verbatim>\<open>required\<close> rejects an absent property, \<^verbatim>\<open>minLength\<close> a present string
  shorter than the bound, \<^verbatim>\<open>minimum\<close> a present number below the bound. A keyword that
  the tag does not set rejects nothing.
\<close>

definition valid_string :: "field_tags \<Rightarrow> string option \<Rightarrow> bool" where
  "valid_string t v =
     (case v of
        None \<Rightarrow> \<not> required t
      | Some s \<Rightarrow> (case minLength t of None \<Rightarrow> True | Some n \<Rightarrow> n \<le> length s))"

definition valid_number :: "field_tags \<Rightarrow> real option \<Rightarrow> bool" where
  "valid_number t v =
     (case v of
        None \<Rightarrow> \<not> required t
      | Some x \<Rightarrow> (case minimum t of None \<Rightarrow> True | Some m \<Rightarrow> m \<le> x))"

definition validate_album :: "album_body \<Rightarrow> bool" where
  "validate_album b =
     (valid_string ID_tags (body_id b) \<and> valid_string Title_tags (body_title b) \<and>
      valid_string Artist_tags (body_artist b) \<and> valid_number Price_tags (body_price b))"

text \<open>
  Decoding the body into the \<^verbatim>\<open>album\<close> input: a field whose property is absent keeps Go's
  zero value, the empty string or 0.
\<close>

definition decode_album :: "album_body \<Rightarrow> album" where
  "decode_album b =
     \<lparr>ID = (case body_id b of None \<Rightarrow> [] | Some s \<Rightarrow> s),
      Title = (case body_title b of None \<Rightarrow> [] | Some s \<Rightarrow> s),
      Artist = (case body_artist b of None \<Rightarrow> [] | Some s \<Rightarrow> s),
      Price = (case body_price b of None \<Rightarrow> 0 | Some x \<Rightarrow> x)\<rparr>"

subsection \<open>Routes\<close>

text \<open>
  The three routes of \<^verbatim>\<open>main\<close>:
  \<^verbatim>\<open>service.Get("/albums", getAlbums())\<close>,
  \<^verbatim>\<open>service.Get("/albums/{id}", getAlbumByID())\<close>,
  \<^verbatim>\<open>service.Post("/albums", postAlbums(), nethttp.SuccessStatus(http.StatusCreated))\<close>.
\<close>

datatype request = GET_albums | GET_album string | POST_albums album_body

datatype payload = AlbumList "album list" | OneAlbum album

text \<open>
  The HTTP status code the library answers an error status with: 400 Bad Request,
  404 Not Found, 409 Conflict (the 404 and the 409 are the error responses of the
  README's \<^verbatim>\<open>openapi.json\<close>).
\<close>

fun http_status :: "status \<Rightarrow> nat" where
  "http_status InvalidArgument = 400"
| "http_status NotFound = 404"
| "http_status AlreadyExists = 409"

text \<open>
  The create route: a body that fails validation is answered with
  \<^verbatim>\<open>status.InvalidArgument\<close> and the interactor is not called.
\<close>

definition create_album :: "album_body \<Rightarrow> album list \<Rightarrow> (status + album) \<times> album list" where
  "create_album b albums =
     (if validate_album b then postAlbums (decode_album b) albums
      else (Inl InvalidArgument, albums))"

text \<open>
  A response is the HTTP status code with the error status or the payload. A successful
  GET answers 200, a successful POST 201 (\<^verbatim>\<open>http.StatusCreated\<close>).
\<close>

definition respond :: "nat \<Rightarrow> ('a \<Rightarrow> payload) \<Rightarrow> (status + 'a) \<times> album list \<Rightarrow>
    (nat \<times> (status + payload)) \<times> album list" where
  "respond ok wrap r =
     (case fst r of
        Inl e \<Rightarrow> ((http_status e, Inl e), snd r)
      | Inr x \<Rightarrow> ((ok, Inr (wrap x)), snd r))"

fun serve :: "request \<Rightarrow> album list \<Rightarrow> (nat \<times> (status + payload)) \<times> album list" where
  "serve GET_albums albums = respond 200 AlbumList (getAlbums albums)"
| "serve (GET_album i) albums = respond 200 OneAlbum (getAlbumByID i albums)"
| "serve (POST_albums b) albums = respond 201 OneAlbum (create_album b albums)"

text \<open>The catalog after a sequence of requests, served one after the other.\<close>

fun serve_all :: "request list \<Rightarrow> album list \<Rightarrow> album list" where
  "serve_all [] albums = albums"
| "serve_all (r # rs) albums = serve_all rs (snd (serve r albums))"

section \<open>Properties\<close>

subsection \<open>The two loops\<close>

lemma getAlbumByID_range_find:
  "getAlbumByID_range albums i = find (\<lambda>a. ID a = i) albums"
  by (induction albums) simp_all

lemma postAlbums_range_None:
  "(postAlbums_range albums inp = None) = (ID inp \<notin> ID ` set albums)"
  by (induction albums) auto

lemma postAlbums_range_Some:
  "postAlbums_range albums inp = Some e \<Longrightarrow> e = AlreadyExists"
  by (induction albums) (auto split: if_splits)

lemma postAlbums_fresh:
  "ID inp \<notin> ID ` set albums \<Longrightarrow> postAlbums inp albums = (Inr inp, albums @ [inp])"
  using postAlbums_range_None [of albums inp] by (simp add: postAlbums_def)

lemma postAlbums_taken:
  assumes "ID inp \<in> ID ` set albums"
  shows "postAlbums inp albums = (Inl AlreadyExists, albums)"
proof -
  from assms have "postAlbums_range albums inp \<noteq> None"
    by (simp add: postAlbums_range_None)
  then obtain e where e: "postAlbums_range albums inp = Some e"
    by blast
  then have "e = AlreadyExists"
    by (rule postAlbums_range_Some)
  with e show ?thesis
    by (simp add: postAlbums_def)
qed

lemma postAlbums_Inr:
  assumes "postAlbums inp albums = (Inr out, albums')"
  shows "ID inp \<notin> ID ` set albums \<and> out = inp \<and> albums' = albums @ [inp]"
proof (cases "ID inp \<in> ID ` set albums")
  case True
  with assms show ?thesis by (simp add: postAlbums_taken)
next
  case False
  with assms show ?thesis by (auto simp add: postAlbums_fresh)
qed

lemma getAlbumByID_range_None:
  "(getAlbumByID_range albums i = None) = (i \<notin> ID ` set albums)"
  by (induction albums) auto

lemma getAlbumByID_range_Some:
  "getAlbumByID_range albums i = Some a \<Longrightarrow> a \<in> set albums \<and> ID a = i"
  by (induction albums) (auto split: if_splits)

lemma getAlbumByID_range_append:
  "getAlbumByID_range (albums @ rest) i =
     (case getAlbumByID_range albums i of
        Some a \<Rightarrow> Some a
      | None \<Rightarrow> getAlbumByID_range rest i)"
  by (induction albums) simp_all

lemma getAlbumByID_appended:
  "ID inp \<notin> ID ` set albums \<Longrightarrow>
     getAlbumByID (ID inp) (albums @ [inp]) = (Inr inp, albums @ [inp])"
  using getAlbumByID_range_None [of albums "ID inp"]
  by (simp add: getAlbumByID_def getAlbumByID_range_append)

subsection \<open>Responses and the served catalog\<close>

lemma respond_Inl: "respond ok wrap (Inl e, s) = ((http_status e, Inl e), s)"
  by (simp add: respond_def)

lemma respond_Inr: "respond ok wrap (Inr x, s) = ((ok, Inr (wrap x)), s)"
  by (simp add: respond_def)

lemma snd_respond: "snd (respond ok wrap r) = snd r"
  by (simp add: respond_def split: sum.split)

lemma snd_getAlbumByID: "snd (getAlbumByID i albums) = albums"
  by (simp add: getAlbumByID_def split: option.split)

lemma snd_postAlbums_distinct:
  "distinct (map ID albums) \<Longrightarrow> distinct (map ID (snd (postAlbums inp albums)))"
  by (cases "ID inp \<in> ID ` set albums") (simp_all add: postAlbums_taken postAlbums_fresh)

lemma snd_serve_distinct:
  "distinct (map ID albums) \<Longrightarrow> distinct (map ID (snd (serve r albums)))"
  by (cases r)
    (simp_all add: snd_respond getAlbums_def snd_getAlbumByID create_album_def
      snd_postAlbums_distinct)

lemma serve_all_distinct:
  "distinct (map ID albums) \<Longrightarrow> distinct (map ID (serve_all rs albums))"
  by (induction rs arbitrary: albums) (simp_all add: snd_serve_distinct)

lemma distinct_albums_seed: "distinct (map ID albums_seed)"
  by (simp add: albums_seed_def)

subsection \<open>Creating an album\<close>

text \<open>
  C1. For every catalog and every input album whose id is the id of an album of the
  catalog, \<^verbatim>\<open>postAlbums\<close> returns \<^verbatim>\<open>status.AlreadyExists\<close>, which is answered as 409,
  and leaves the catalog as it was. The interactor runs on the requests that passed
  validation: for each of them the create route answers 409 with the catalog unchanged.
\<close>

theorem postAlbums_existing_id:
  assumes "ID inp \<in> ID ` set albums"
  shows "postAlbums inp albums = (Inl AlreadyExists, albums) \<and>
         http_status AlreadyExists = 409 \<and>
         (validate_album b \<and> decode_album b = inp \<longrightarrow>
            serve (POST_albums b) albums = ((409, Inl AlreadyExists), albums))"
  using assms by (simp add: postAlbums_taken create_album_def respond_Inl)

theorem postAlbums_existing_id_witness:
  "ID \<lparr>ID = ''2'', Title = ''Jeru again'', Artist = [], Price = 0\<rparr> \<in> ID ` set albums_seed \<and>
   validate_album
     \<lparr>body_id = Some ''2'', body_title = Some ''Jeru again'', body_artist = None,
      body_price = None\<rparr> \<and>
   decode_album
     \<lparr>body_id = Some ''2'', body_title = Some ''Jeru again'', body_artist = None,
      body_price = None\<rparr> = \<lparr>ID = ''2'', Title = ''Jeru again'', Artist = [], Price = 0\<rparr> \<and>
   postAlbums \<lparr>ID = ''2'', Title = ''Jeru again'', Artist = [], Price = 0\<rparr> albums_seed =
     (Inl AlreadyExists, albums_seed) \<and>
   serve (POST_albums
     \<lparr>body_id = Some ''2'', body_title = Some ''Jeru again'', body_artist = None,
      body_price = None\<rparr>) albums_seed = ((409, Inl AlreadyExists), albums_seed)"
proof -
  let ?inp = "\<lparr>ID = ''2'', Title = ''Jeru again'', Artist = [], Price = 0\<rparr>"
  let ?b = "\<lparr>body_id = Some ''2'', body_title = Some ''Jeru again'', body_artist = None,
      body_price = None\<rparr>"
  have h: "ID ?inp \<in> ID ` set albums_seed"
    by (simp add: albums_seed_def)
  have v: "validate_album ?b"
    by (simp add: validate_album_def valid_string_def valid_number_def ID_tags_def
        Title_tags_def Artist_tags_def Price_tags_def)
  have d: "decode_album ?b = ?inp"
    by (simp add: decode_album_def)
  from postAlbums_existing_id [OF h, of ?b] h v d show ?thesis
    by simp
qed

text \<open>
  C2. The create request with id "4", the empty string as title, artist "Miles Davis" and
  price 49.99 passes validation on the seeded catalog: the tag of \<^verbatim>\<open>Title\<close> sets
  \<^verbatim>\<open>required\<close> and no \<^verbatim>\<open>minLength\<close>. The route answers 201 and the album with the empty
  title is appended to the catalog.
\<close>

theorem empty_title_created:
  "validate_album
     \<lparr>body_id = Some ''4'', body_title = Some [], body_artist = Some ''Miles Davis'',
      body_price = Some 49.99\<rparr> \<and>
   serve (POST_albums
     \<lparr>body_id = Some ''4'', body_title = Some [], body_artist = Some ''Miles Davis'',
      body_price = Some 49.99\<rparr>) albums_seed =
     ((201, Inr (OneAlbum \<lparr>ID = ''4'', Title = [], Artist = ''Miles Davis'', Price = 49.99\<rparr>)),
      albums_seed @ [\<lparr>ID = ''4'', Title = [], Artist = ''Miles Davis'', Price = 49.99\<rparr>])"
  by (simp add: validate_album_def valid_string_def valid_number_def ID_tags_def
      Title_tags_def Artist_tags_def Price_tags_def create_album_def decode_album_def
      postAlbums_def respond_def albums_seed_def)

text \<open>
  A create request without \<^verbatim>\<open>title\<close> does fail validation (\<^verbatim>\<open>required:"true"\<close>); only
  the empty title passes.
\<close>

lemma title_absent_rejected:
  assumes "body_title b = None"
  shows "serve (POST_albums b) albums = ((400, Inl InvalidArgument), albums)"
proof -
  from assms have "\<not> valid_string Title_tags (body_title b)"
    by (simp add: valid_string_def Title_tags_def)
  then have "\<not> validate_album b"
    by (simp add: validate_album_def)
  then show ?thesis
    by (simp add: create_album_def respond_Inl)
qed

text \<open>
  C3. When \<^verbatim>\<open>postAlbums\<close> succeeds on an input album, \<^verbatim>\<open>getAlbumByID\<close> with that album's
  id on the catalog it left succeeds and returns the album that was given, field for
  field; the route answers 200 with it.
\<close>

theorem getAlbumByID_after_postAlbums:
  assumes "postAlbums inp albums = (Inr out, albums')"
  shows "out = inp \<and> getAlbumByID (ID inp) albums' = (Inr inp, albums') \<and>
         serve (GET_album (ID inp)) albums' = ((200, Inr (OneAlbum inp)), albums')"
proof -
  from assms have "ID inp \<notin> ID ` set albums" and "out = inp" and "albums' = albums @ [inp]"
    using postAlbums_Inr [of inp albums out albums'] by simp_all
  then show ?thesis
    by (simp add: getAlbumByID_appended respond_Inr)
qed

theorem getAlbumByID_after_postAlbums_witness:
  "postAlbums \<lparr>ID = ''4'', Title = ''Kind of Blue'', Artist = ''Miles Davis'', Price = 49.99\<rparr>
     albums_seed =
     (Inr \<lparr>ID = ''4'', Title = ''Kind of Blue'', Artist = ''Miles Davis'', Price = 49.99\<rparr>,
      albums_seed @
        [\<lparr>ID = ''4'', Title = ''Kind of Blue'', Artist = ''Miles Davis'', Price = 49.99\<rparr>]) \<and>
   getAlbumByID ''4''
     (albums_seed @
        [\<lparr>ID = ''4'', Title = ''Kind of Blue'', Artist = ''Miles Davis'', Price = 49.99\<rparr>]) =
     (Inr \<lparr>ID = ''4'', Title = ''Kind of Blue'', Artist = ''Miles Davis'', Price = 49.99\<rparr>,
      albums_seed @
        [\<lparr>ID = ''4'', Title = ''Kind of Blue'', Artist = ''Miles Davis'', Price = 49.99\<rparr>])"
proof -
  let ?inp = "\<lparr>ID = ''4'', Title = ''Kind of Blue'', Artist = ''Miles Davis'', Price = 49.99\<rparr>"
  have h: "postAlbums ?inp albums_seed = (Inr ?inp, albums_seed @ [?inp])"
    by (simp add: postAlbums_def albums_seed_def)
  from getAlbumByID_after_postAlbums [OF h] h show ?thesis
    by simp
qed

text \<open>
  C4. For every catalog and every input album whose id is the id of no album of the
  catalog, \<^verbatim>\<open>postAlbums\<close> appends the album at the end of the catalog and returns it
  unchanged; for a request that passed validation the create route answers 201 with the
  decoded album.
\<close>

theorem postAlbums_new_id:
  assumes "ID inp \<notin> ID ` set albums"
  shows "postAlbums inp albums = (Inr inp, albums @ [inp]) \<and>
         (validate_album b \<and> decode_album b = inp \<longrightarrow>
            serve (POST_albums b) albums = ((201, Inr (OneAlbum inp)), albums @ [inp]))"
  using assms by (simp add: postAlbums_fresh create_album_def respond_Inr)

theorem postAlbums_new_id_witness:
  "ID \<lparr>ID = ''4'', Title = ''Kind of Blue'', Artist = ''Miles Davis'', Price = 49.99\<rparr>
     \<notin> ID ` set albums_seed \<and>
   validate_album
     \<lparr>body_id = Some ''4'', body_title = Some ''Kind of Blue'',
      body_artist = Some ''Miles Davis'', body_price = Some 49.99\<rparr> \<and>
   decode_album
     \<lparr>body_id = Some ''4'', body_title = Some ''Kind of Blue'',
      body_artist = Some ''Miles Davis'', body_price = Some 49.99\<rparr> =
     \<lparr>ID = ''4'', Title = ''Kind of Blue'', Artist = ''Miles Davis'', Price = 49.99\<rparr> \<and>
   postAlbums \<lparr>ID = ''4'', Title = ''Kind of Blue'', Artist = ''Miles Davis'', Price = 49.99\<rparr>
     albums_seed =
     (Inr \<lparr>ID = ''4'', Title = ''Kind of Blue'', Artist = ''Miles Davis'', Price = 49.99\<rparr>,
      albums_seed @
        [\<lparr>ID = ''4'', Title = ''Kind of Blue'', Artist = ''Miles Davis'', Price = 49.99\<rparr>]) \<and>
   serve (POST_albums
     \<lparr>body_id = Some ''4'', body_title = Some ''Kind of Blue'',
      body_artist = Some ''Miles Davis'', body_price = Some 49.99\<rparr>) albums_seed =
     ((201, Inr (OneAlbum
        \<lparr>ID = ''4'', Title = ''Kind of Blue'', Artist = ''Miles Davis'', Price = 49.99\<rparr>)),
      albums_seed @
        [\<lparr>ID = ''4'', Title = ''Kind of Blue'', Artist = ''Miles Davis'', Price = 49.99\<rparr>])"
proof -
  let ?inp = "\<lparr>ID = ''4'', Title = ''Kind of Blue'', Artist = ''Miles Davis'', Price = 49.99\<rparr>"
  let ?b = "\<lparr>body_id = Some ''4'', body_title = Some ''Kind of Blue'',
      body_artist = Some ''Miles Davis'', body_price = Some 49.99\<rparr>"
  have h: "ID ?inp \<notin> ID ` set albums_seed"
    by (simp add: albums_seed_def)
  have v: "validate_album ?b"
    by (simp add: validate_album_def valid_string_def valid_number_def ID_tags_def
        Title_tags_def Artist_tags_def Price_tags_def)
  have d: "decode_album ?b = ?inp"
    by (simp add: decode_album_def)
  from postAlbums_new_id [OF h, of ?b] h v d show ?thesis
    by simp
qed

subsection \<open>The catalog over a run of the service\<close>

text \<open>
  C5. From the seeded catalog, after every sequence of list, get-by-id and create
  requests served one after the other, no two albums of the catalog have the same id.
\<close>

theorem serve_all_unique_ids:
  "distinct (map ID (serve_all rs albums_seed))"
  using distinct_albums_seed by (rule serve_all_distinct)

theorem serve_all_unique_ids_witness:
  "distinct (map ID (serve_all
     [POST_albums \<lparr>body_id = Some ''4'', body_title = Some ''Kind of Blue'',
        body_artist = Some ''Miles Davis'', body_price = Some 49.99\<rparr>,
      GET_albums,
      POST_albums \<lparr>body_id = Some ''4'', body_title = Some ''Kind of Blue'',
        body_artist = Some ''Miles Davis'', body_price = Some 49.99\<rparr>,
      GET_album ''4''] albums_seed)) \<and>
   map ID (serve_all
     [POST_albums \<lparr>body_id = Some ''4'', body_title = Some ''Kind of Blue'',
        body_artist = Some ''Miles Davis'', body_price = Some 49.99\<rparr>,
      GET_albums,
      POST_albums \<lparr>body_id = Some ''4'', body_title = Some ''Kind of Blue'',
        body_artist = Some ''Miles Davis'', body_price = Some 49.99\<rparr>,
      GET_album ''4''] albums_seed) = [''1'', ''2'', ''3'', ''4'']"
proof -
  let ?b = "\<lparr>body_id = Some ''4'', body_title = Some ''Kind of Blue'',
        body_artist = Some ''Miles Davis'', body_price = Some 49.99\<rparr>"
  have "map ID (serve_all [POST_albums ?b, GET_albums, POST_albums ?b, GET_album ''4'']
      albums_seed) = [''1'', ''2'', ''3'', ''4'']"
    by (simp add: validate_album_def valid_string_def valid_number_def ID_tags_def
      Title_tags_def Artist_tags_def Price_tags_def create_album_def decode_album_def
      postAlbums_def getAlbums_def getAlbumByID_def respond_def albums_seed_def)
  with serve_all_unique_ids [of "[POST_albums ?b, GET_albums, POST_albums ?b, GET_album ''4'']"]
  show ?thesis by simp
qed

subsection \<open>Validation of a create request\<close>

text \<open>
  C6. A create request whose \<^verbatim>\<open>id\<close> is absent or the empty string fails validation: the
  route answers 400 (\<^verbatim>\<open>status.InvalidArgument\<close>) and the catalog is as it was.
\<close>

theorem id_absent_or_empty_rejected:
  assumes "body_id b = None \<or> body_id b = Some []"
  shows "create_album b albums = (Inl InvalidArgument, albums) \<and>
         serve (POST_albums b) albums = ((400, Inl InvalidArgument), albums)"
proof -
  from assms have "\<not> valid_string ID_tags (body_id b)"
    by (auto simp add: valid_string_def ID_tags_def)
  then have "\<not> validate_album b"
    by (simp add: validate_album_def)
  then show ?thesis
    by (simp add: create_album_def respond_Inl)
qed

theorem id_absent_or_empty_rejected_witness:
  "serve (POST_albums \<lparr>body_id = None, body_title = Some ''Kind of Blue'',
      body_artist = Some ''Miles Davis'', body_price = Some 49.99\<rparr>) albums_seed =
     ((400, Inl InvalidArgument), albums_seed) \<and>
   serve (POST_albums \<lparr>body_id = Some [], body_title = Some ''Kind of Blue'',
      body_artist = Some ''Miles Davis'', body_price = Some 49.99\<rparr>) albums_seed =
     ((400, Inl InvalidArgument), albums_seed)"
  using
    id_absent_or_empty_rejected [of "\<lparr>body_id = None, body_title = Some ''Kind of Blue'',
      body_artist = Some ''Miles Davis'', body_price = Some 49.99\<rparr>" albums_seed]
    id_absent_or_empty_rejected [of "\<lparr>body_id = Some [], body_title = Some ''Kind of Blue'',
      body_artist = Some ''Miles Davis'', body_price = Some 49.99\<rparr>" albums_seed]
  by (simp add: respond_Inl)

text \<open>
  C7. A create request whose \<^verbatim>\<open>price\<close> is present and negative fails validation and is
  answered with 400, the catalog as it was. A request without \<^verbatim>\<open>price\<close> passes the
  validation of the price, the decoded album has price 0, and when the request creates an
  album, the album stored at the end of the catalog has price 0.
\<close>

theorem price_negative_or_absent:
  "(body_price b = Some p \<and> p < 0 \<longrightarrow>
      create_album b albums = (Inl InvalidArgument, albums) \<and>
      serve (POST_albums b) albums = ((400, Inl InvalidArgument), albums)) \<and>
   (body_price b = None \<longrightarrow>
      valid_number Price_tags (body_price b) \<and> Price (decode_album b) = 0 \<and>
      (create_album b albums = (Inr a, albums') \<longrightarrow>
         Price a = 0 \<and> albums' = albums @ [a]))"
proof (intro conjI impI)
  assume neg: "body_price b = Some p \<and> p < 0"
  then have "\<not> valid_number Price_tags (body_price b)"
    by (simp add: valid_number_def Price_tags_def)
  then have "\<not> validate_album b"
    by (simp add: validate_album_def)
  then show "create_album b albums = (Inl InvalidArgument, albums)"
    and "serve (POST_albums b) albums = ((400, Inl InvalidArgument), albums)"
    by (simp_all add: create_album_def respond_Inl)
next
  assume absent: "body_price b = None"
  then show "valid_number Price_tags (body_price b)"
    by (simp add: valid_number_def Price_tags_def)
  from absent show zero: "Price (decode_album b) = 0"
    by (simp add: decode_album_def)
  assume created: "create_album b albums = (Inr a, albums')"
  then have "postAlbums (decode_album b) albums = (Inr a, albums')"
    by (simp add: create_album_def split: if_splits)
  then have "a = decode_album b" and "albums' = albums @ [decode_album b]"
    using postAlbums_Inr [of "decode_album b" albums a albums'] by simp_all
  with zero show "Price a = 0" and "albums' = albums @ [a]"
    by simp_all
qed

theorem price_negative_or_absent_witness:
  "serve (POST_albums \<lparr>body_id = Some ''4'', body_title = Some ''Kind of Blue'',
      body_artist = Some ''Miles Davis'', body_price = Some (- 1)\<rparr>) albums_seed =
     ((400, Inl InvalidArgument), albums_seed) \<and>
   create_album \<lparr>body_id = Some ''4'', body_title = Some ''Kind of Blue'',
      body_artist = Some ''Miles Davis'', body_price = None\<rparr> albums_seed =
     (Inr \<lparr>ID = ''4'', Title = ''Kind of Blue'', Artist = ''Miles Davis'', Price = 0\<rparr>,
      albums_seed @
        [\<lparr>ID = ''4'', Title = ''Kind of Blue'', Artist = ''Miles Davis'', Price = 0\<rparr>]) \<and>
   Price \<lparr>ID = ''4'', Title = ''Kind of Blue'', Artist = ''Miles Davis'', Price = 0\<rparr> = 0"
proof -
  let ?neg = "\<lparr>body_id = Some ''4'', body_title = Some ''Kind of Blue'',
      body_artist = Some ''Miles Davis'', body_price = Some (- 1)\<rparr>"
  let ?abs = "\<lparr>body_id = Some ''4'', body_title = Some ''Kind of Blue'',
      body_artist = Some ''Miles Davis'', body_price = None\<rparr>"
  let ?a = "\<lparr>ID = ''4'', Title = ''Kind of Blue'', Artist = ''Miles Davis'', Price = 0\<rparr>"
  have c: "create_album ?abs albums_seed = (Inr ?a, albums_seed @ [?a])"
    by (simp add: validate_album_def valid_string_def valid_number_def ID_tags_def
      Title_tags_def Artist_tags_def Price_tags_def create_album_def decode_album_def
      postAlbums_def albums_seed_def)
  from price_negative_or_absent [of ?neg "- 1" albums_seed]
    price_negative_or_absent [of ?abs _ albums_seed ?a "albums_seed @ [?a]"] c
  show ?thesis by (simp add: respond_Inl)
qed

subsection \<open>Looking an album up\<close>

text \<open>
  C8. For every catalog and every id string, \<^verbatim>\<open>getAlbumByID\<close> leaves the catalog as it
  was. When an album of the catalog has the id, it returns an album of the catalog with
  that id (the first one in catalog order) and the route answers 200; when none has, it
  returns \<^verbatim>\<open>status.NotFound\<close> and the route answers 404.
\<close>

theorem getAlbumByID_found_or_not:
  "snd (getAlbumByID i albums) = albums \<and>
   fst (getAlbumByID i albums) =
     (case find (\<lambda>a. ID a = i) albums of Some a \<Rightarrow> Inr a | None \<Rightarrow> Inl NotFound) \<and>
   (i \<in> ID ` set albums \<longrightarrow>
      (\<exists>a. a \<in> set albums \<and> ID a = i \<and> getAlbumByID i albums = (Inr a, albums) \<and>
        serve (GET_album i) albums = ((200, Inr (OneAlbum a)), albums))) \<and>
   (i \<notin> ID ` set albums \<longrightarrow>
      getAlbumByID i albums = (Inl NotFound, albums) \<and>
      serve (GET_album i) albums = ((404, Inl NotFound), albums))"
proof (intro conjI impI)
  show "snd (getAlbumByID i albums) = albums"
    by (rule snd_getAlbumByID)
  show "fst (getAlbumByID i albums) =
     (case find (\<lambda>a. ID a = i) albums of Some a \<Rightarrow> Inr a | None \<Rightarrow> Inl NotFound)"
    by (simp add: getAlbumByID_def getAlbumByID_range_find split: option.split)
next
  assume "i \<in> ID ` set albums"
  then have "getAlbumByID_range albums i \<noteq> None"
    by (simp add: getAlbumByID_range_None)
  then obtain a where a: "getAlbumByID_range albums i = Some a"
    by blast
  then have "a \<in> set albums \<and> ID a = i"
    by (rule getAlbumByID_range_Some)
  moreover from a have "getAlbumByID i albums = (Inr a, albums)"
    by (simp add: getAlbumByID_def)
  ultimately show "\<exists>a. a \<in> set albums \<and> ID a = i \<and> getAlbumByID i albums = (Inr a, albums) \<and>
        serve (GET_album i) albums = ((200, Inr (OneAlbum a)), albums)"
    by (auto simp add: respond_Inr)
next
  assume "i \<notin> ID ` set albums"
  then have "getAlbumByID_range albums i = None"
    by (simp add: getAlbumByID_range_None)
  then show "getAlbumByID i albums = (Inl NotFound, albums)"
    and "serve (GET_album i) albums = ((404, Inl NotFound), albums)"
    by (simp_all add: getAlbumByID_def respond_Inl)
qed

theorem getAlbumByID_found_or_not_witness:
  "''2'' \<in> ID ` set albums_seed \<and>
   getAlbumByID ''2'' albums_seed =
     (Inr \<lparr>ID = ''2'', Title = ''Jeru'', Artist = ''Gerry Mulligan'', Price = 17.99\<rparr>,
      albums_seed) \<and>
   ''9'' \<notin> ID ` set albums_seed \<and>
   getAlbumByID ''9'' albums_seed = (Inl NotFound, albums_seed) \<and>
   serve (GET_album ''9'') albums_seed = ((404, Inl NotFound), albums_seed)"
proof -
  have h2: "''2'' \<in> ID ` set albums_seed" and h9: "''9'' \<notin> ID ` set albums_seed"
    by (simp_all add: albums_seed_def)
  have f: "find (\<lambda>a. ID a = ''2'') albums_seed =
      Some \<lparr>ID = ''2'', Title = ''Jeru'', Artist = ''Gerry Mulligan'', Price = 17.99\<rparr>"
    by (simp add: albums_seed_def)
  from getAlbumByID_found_or_not [of "''2''" albums_seed] f
  have "getAlbumByID ''2'' albums_seed =
     (Inr \<lparr>ID = ''2'', Title = ''Jeru'', Artist = ''Gerry Mulligan'', Price = 17.99\<rparr>,
      albums_seed)"
    by (simp add: prod_eq_iff)
  with getAlbumByID_found_or_not [of "''9''" albums_seed] h2 h9 show ?thesis
    by (simp add: respond_Inl)
qed

subsection \<open>Listing the catalog\<close>

text \<open>
  C9. \<^verbatim>\<open>getAlbums\<close> never returns an error: it returns the whole catalog in catalog
  order and leaves it as it was, the empty list for an empty catalog. On the seeded
  catalog it returns the three seed albums with ids "1", "2", "3" in that order. After a
  successful create, the list is the earlier list followed by the new album.
\<close>

theorem getAlbums_whole_catalog:
  "getAlbums albums = (Inr albums, albums) \<and>
   serve GET_albums albums = ((200, Inr (AlbumList albums)), albums) \<and>
   getAlbums [] = (Inr [], []) \<and>
   fst (getAlbums albums_seed) =
     Inr [\<lparr>ID = ''1'', Title = ''Blue Train'', Artist = ''John Coltrane'', Price = 56.99\<rparr>,
          \<lparr>ID = ''2'', Title = ''Jeru'', Artist = ''Gerry Mulligan'', Price = 17.99\<rparr>,
          \<lparr>ID = ''3'', Title = ''Sarah Vaughan and Clifford Brown'',
           Artist = ''Sarah Vaughan'', Price = 39.99\<rparr>] \<and>
   (ID inp \<notin> ID ` set albums \<longrightarrow>
      fst (getAlbums (snd (postAlbums inp albums))) = Inr (albums @ [inp]))"
  by (simp add: getAlbums_def respond_def albums_seed_def postAlbums_fresh)

theorem getAlbums_whole_catalog_witness:
  "ID \<lparr>ID = ''4'', Title = ''Kind of Blue'', Artist = ''Miles Davis'', Price = 49.99\<rparr>
     \<notin> ID ` set albums_seed \<and>
   fst (getAlbums (snd (postAlbums
     \<lparr>ID = ''4'', Title = ''Kind of Blue'', Artist = ''Miles Davis'', Price = 49.99\<rparr>
     albums_seed))) =
     Inr [\<lparr>ID = ''1'', Title = ''Blue Train'', Artist = ''John Coltrane'', Price = 56.99\<rparr>,
          \<lparr>ID = ''2'', Title = ''Jeru'', Artist = ''Gerry Mulligan'', Price = 17.99\<rparr>,
          \<lparr>ID = ''3'', Title = ''Sarah Vaughan and Clifford Brown'',
           Artist = ''Sarah Vaughan'', Price = 39.99\<rparr>,
          \<lparr>ID = ''4'', Title = ''Kind of Blue'', Artist = ''Miles Davis'', Price = 49.99\<rparr>]"
proof -
  let ?inp = "\<lparr>ID = ''4'', Title = ''Kind of Blue'', Artist = ''Miles Davis'', Price = 49.99\<rparr>"
  have h: "ID ?inp \<notin> ID ` set albums_seed"
    by (simp add: albums_seed_def)
  with getAlbums_whole_catalog [of albums_seed ?inp] show ?thesis
    by (simp add: albums_seed_def)
qed

subsection \<open>What a successful create leaves alone\<close>

text \<open>
  C10. When \<^verbatim>\<open>postAlbums\<close> succeeds, the catalog is longer by exactly one album and every
  position of the earlier catalog holds the album it held before.
\<close>

theorem postAlbums_keeps_earlier_albums:
  assumes "postAlbums inp albums = (Inr out, albums')"
  shows "length albums' = length albums + 1 \<and>
         (\<forall>k<length albums. albums' ! k = albums ! k) \<and>
         take (length albums) albums' = albums"
proof -
  from assms have "albums' = albums @ [inp]"
    using postAlbums_Inr [of inp albums out albums'] by simp
  then show ?thesis
    by (simp add: nth_append)
qed

theorem postAlbums_keeps_earlier_albums_witness:
  "postAlbums \<lparr>ID = ''4'', Title = ''Kind of Blue'', Artist = ''Miles Davis'', Price = 49.99\<rparr>
     albums_seed =
     (Inr \<lparr>ID = ''4'', Title = ''Kind of Blue'', Artist = ''Miles Davis'', Price = 49.99\<rparr>,
      albums_seed @
        [\<lparr>ID = ''4'', Title = ''Kind of Blue'', Artist = ''Miles Davis'', Price = 49.99\<rparr>]) \<and>
   length (albums_seed @
        [\<lparr>ID = ''4'', Title = ''Kind of Blue'', Artist = ''Miles Davis'', Price = 49.99\<rparr>]) =
     length albums_seed + 1 \<and>
   length albums_seed = 3 \<and>
   (albums_seed @
      [\<lparr>ID = ''4'', Title = ''Kind of Blue'', Artist = ''Miles Davis'', Price = 49.99\<rparr>]) ! 0 =
     albums_seed ! 0 \<and>
   (albums_seed @
      [\<lparr>ID = ''4'', Title = ''Kind of Blue'', Artist = ''Miles Davis'', Price = 49.99\<rparr>]) ! 1 =
     albums_seed ! 1 \<and>
   (albums_seed @
      [\<lparr>ID = ''4'', Title = ''Kind of Blue'', Artist = ''Miles Davis'', Price = 49.99\<rparr>]) ! 2 =
     albums_seed ! 2"
proof -
  let ?inp = "\<lparr>ID = ''4'', Title = ''Kind of Blue'', Artist = ''Miles Davis'', Price = 49.99\<rparr>"
  have h: "postAlbums ?inp albums_seed = (Inr ?inp, albums_seed @ [?inp])"
    by (simp add: postAlbums_def albums_seed_def)
  have l: "length albums_seed = 3"
    by (simp add: albums_seed_def)
  from postAlbums_keeps_earlier_albums [OF h] h l show ?thesis
    by simp
qed

end
